theory Spec2Isabelle
  imports Main
begin

section \<open>The user router and the application stack\<close>

text \<open>
  The two source files are pure wiring. \<^verbatim>\<open>src/routes/userRoutes.js\<close> registers
  four routes on an Express router, each with its handler chain and an OpenAPI
  comment listing the documented responses; \<^verbatim>\<open>src/server.js\<close> stacks three
  application-level middlewares and mounts three routers. The embedding keeps
  that data as it is written and adds the dispatch rule Express 4 applies to
  it: layers are tried in registration order, and the handlers of the matching
  layers run one after the other until one of them answers or fails.
\<close>

subsection \<open>Routes as registered\<close>

datatype http_method = GET | HEAD | POST | PUT | PATCH | DELETE | OPTIONS

text \<open>
  Every function the two files hand to Express, named as in the source. The
  routers \<^verbatim>\<open>storeRoutes\<close> and \<^verbatim>\<open>matchingRoutes\<close> are required by the server but
  their files are not part of the sources; \<open>Other\<close> stands for whatever
  handlers they register.
\<close>

datatype handler =
    SwaggerServe
  | SwaggerSetup
  | UrlEncoded
  | Json
  | Authenticate
  | Signup
  | Login
  | UpdateProfile
  | GetUserList
  | Other string

text \<open>
  One \<^verbatim>\<open>router.METHOD(path, ...handlers)\<close> call together with the comment
  above it: \<open>doc_path\<close> is the path key of the comment, \<open>doc_security\<close>
  tells whether it declares \<^verbatim>\<open>security: bearerAuth\<close>, and \<open>doc_responses\<close>
  lists the status codes under \<^verbatim>\<open>responses:\<close> in the order written.
\<close>

record route =
  rmethod :: http_method
  rpath :: string
  rhandlers :: "handler list"
  doc_path :: string
  doc_security :: bool
  doc_responses :: "nat list"

definition signupRoute :: route where
  "signupRoute =
     \<lparr>rmethod = POST, rpath = ''/signup'', rhandlers = [Signup],
      doc_path = ''/users/signup'', doc_security = False,
      doc_responses = [201, 400, 500]\<rparr>"

definition loginRoute :: route where
  "loginRoute =
     \<lparr>rmethod = POST, rpath = ''/login'', rhandlers = [Login],
      doc_path = ''/users/login'', doc_security = False,
      doc_responses = [200, 401, 402, 500]\<rparr>"

definition updateRoute :: route where
  "updateRoute =
     \<lparr>rmethod = POST, rpath = ''/update'', rhandlers = [Authenticate, UpdateProfile],
      doc_path = ''/users/update'', doc_security = True,
      doc_responses = [200, 400, 401, 500]\<rparr>"

definition listRoute :: route where
  "listRoute =
     \<lparr>rmethod = GET, rpath = ''/list'', rhandlers = [GetUserList],
      doc_path = ''/users/list'', doc_security = False,
      doc_responses = [200, 500]\<rparr>"

definition userRoutes :: "route list" where
  "userRoutes = [signupRoute, loginRoute, updateRoute, listRoute]"

subsection \<open>Matching paths and methods\<close>

text \<open>
  A router made by \<^verbatim>\<open>express.Router()\<close> with no options compares paths
  without regard to letter case and accepts one trailing slash. The path of a
  request is its pathname: the query string plays no part.
\<close>

definition lower_char :: "char \<Rightarrow> char" where
  "lower_char c =
     (case map_of (zip ''ABCDEFGHIJKLMNOPQRSTUVWXYZ'' ''abcdefghijklmnopqrstuvwxyz'') c of
        None \<Rightarrow> c
      | Some l \<Rightarrow> l)"

definition lower :: "string \<Rightarrow> string" where
  "lower s = map lower_char s"

definition untrail :: "string \<Rightarrow> string" where
  "untrail p = (if p \<noteq> [] \<and> last p = CHR ''/'' then butlast p else p)"

definition path_matches :: "string \<Rightarrow> string \<Rightarrow> bool" where
  "path_matches pat p = (lower (untrail p) = lower (untrail pat))"

text \<open>A route registered for GET also serves HEAD.\<close>

definition handles :: "route \<Rightarrow> http_method \<Rightarrow> bool" where
  "handles r m = (rmethod r = m \<or> (m = HEAD \<and> rmethod r = GET))"

text \<open>
  A router, seen from the application: the routes whose path matches what is
  left of the request path, in registration order.
\<close>

definition user_router :: "string \<Rightarrow> route list" where
  "user_router p = filter (\<lambda>r. path_matches (rpath r) p) userRoutes"

subsection \<open>The application stack of the server\<close>

text \<open>
  \<^verbatim>\<open>app.use(path, ...handlers)\<close> is a \<open>Use\<close> layer, \<^verbatim>\<open>app.use(path, router)\<close> a
  \<open>Mount\<close> layer. A call of \<^verbatim>\<open>app.use\<close> without a path mounts at \<open>''/''\<close>. The
  store and matching routers are parameters, their files being absent.
\<close>

datatype layer =
    Use string "handler list"
  | Mount string "string \<Rightarrow> route list"

definition app :: "(string \<Rightarrow> route list) \<Rightarrow> (string \<Rightarrow> route list) \<Rightarrow> layer list" where
  "app storeRoutes matchingRoutes =
     [Use ''/api-docs'' [SwaggerServe, SwaggerSetup],
      Use ''/'' [UrlEncoded],
      Use ''/'' [Json],
      Mount ''/users'' user_router,
      Mount ''/stores'' storeRoutes,
      Mount ''/matchings'' matchingRoutes]"

subsection \<open>Dispatch\<close>

fun strip_prefix :: "string \<Rightarrow> string \<Rightarrow> string option" where
  "strip_prefix [] p = Some p"
| "strip_prefix (c # cs) [] = None"
| "strip_prefix (c # cs) (d # ds) =
     (if lower_char c = lower_char d then strip_prefix cs ds else None)"

text \<open>
  A layer mounted at \<open>pre\<close> sees a request whose path is \<open>pre\<close>, in any letter
  case, alone or followed by a slash; its router matches on what is left of
  the path, which keeps its leading slash. One slash right after the prefix is
  taken with it when another slash follows. The root mount sees every
  request.
\<close>

definition strip_mount :: "string \<Rightarrow> string \<Rightarrow> string option" where
  "strip_mount pre p =
     (if pre = ''/'' then Some p
      else case strip_prefix pre p of
             None \<Rightarrow> None
           | Some rest \<Rightarrow>
               (case rest of
                  [] \<Rightarrow> Some ''/''
                | c # cs \<Rightarrow>
                    (if c = CHR ''/''
                     then (case cs of
                             [] \<Rightarrow> Some ''/''
                           | d # ds \<Rightarrow> (if d = CHR ''/'' then Some cs else Some rest))
                     else None)))"

text \<open>The routes a layer dispatches a request to.\<close>

primrec layer_routes :: "http_method \<Rightarrow> string \<Rightarrow> layer \<Rightarrow> route list" where
  "layer_routes m p (Use pre hs) = []"
| "layer_routes m p (Mount pre router) =
     (case strip_mount pre p of
        None \<Rightarrow> []
      | Some rest \<Rightarrow> filter (\<lambda>r. handles r m) (router rest))"


text \<open>
  What Express does for a request, one step after the other: it calls a
  handler, or, at the end of a router that holds routes for the path of an
  OPTIONS request none of which is registered for OPTIONS, it answers by
  itself with the methods those routes allow.
\<close>

datatype step = Call handler | Options "http_method list"

definition allow_of :: "route \<Rightarrow> http_method list" where
  "allow_of r = (if rmethod r = GET then [GET, HEAD] else [rmethod r])"

primrec layer_options :: "http_method \<Rightarrow> string \<Rightarrow> layer \<Rightarrow> step list" where
  "layer_options m p (Use pre hs) = []"
| "layer_options m p (Mount pre router) =
     (case strip_mount pre p of
        None \<Rightarrow> []
      | Some rest \<Rightarrow>
          (if m = OPTIONS \<and> filter (\<lambda>r. rmethod r \<noteq> OPTIONS) (router rest) \<noteq> []
           then [Options (remdups (concat (map allow_of
                   (filter (\<lambda>r. rmethod r \<noteq> OPTIONS) (router rest)))))]
           else []))"

primrec layer_steps :: "http_method \<Rightarrow> string \<Rightarrow> layer \<Rightarrow> step list" where
  "layer_steps m p (Use pre hs) =
     (case strip_mount pre p of None \<Rightarrow> [] | Some rest \<Rightarrow> map Call hs)"
| "layer_steps m p (Mount pre router) =
     map Call (concat (map rhandlers (layer_routes m p (Mount pre router))))
     @ layer_options m p (Mount pre router)"

definition stack :: "layer list \<Rightarrow> http_method \<Rightarrow> string \<Rightarrow> step list" where
  "stack a m p = concat (map (layer_steps m p) a)"

subsection \<open>Running the handlers\<close>

text \<open>
  A response is the answer of a handler (status and body), or one of the three
  answers Express gives by itself: 404 with a page saying it cannot serve the
  method and path when every handler passed the request on, the status of the
  error when a handler failed, and 200 with the allowed methods for OPTIONS.
\<close>

datatype response =
    Answer nat string
  | Cannot http_method string
  | Failed nat
  | Allow "http_method list"


text \<open>
  A handler passes the request on, possibly changed (\<^verbatim>\<open>next()\<close>), answers it,
  or fails (\<^verbatim>\<open>next(err)\<close> or a throw), the error carrying a status or none. What
  the handlers do is not in the sources, so their behaviour is a parameter
  \<open>beh\<close>. The server registers no error handler: the one of Express answers
  with the status of the error when that is a 4xx or 5xx status, with 500
  otherwise.
\<close>

datatype 'q outcome = Next 'q | Respond nat string | Fail "nat option"

fun error_status :: "nat option \<Rightarrow> nat" where
  "error_status None = 500"
| "error_status (Some s) = (if 400 \<le> s \<and> s < 600 then s else 500)"

text \<open>The response when the last handler called has done \<open>out\<close>.\<close>

fun finish :: "http_method \<Rightarrow> string \<Rightarrow> 'q outcome \<Rightarrow> response" where
  "finish m p (Next q) = Cannot m p"
| "finish m p (Respond s b) = Answer s b"
| "finish m p (Fail e) = Failed (error_status e)"

fun run ::
  "(handler \<Rightarrow> 'q \<Rightarrow> 'q outcome) \<Rightarrow> http_method \<Rightarrow> string \<Rightarrow> step list \<Rightarrow> 'q \<Rightarrow> response"
where
  "run beh m p [] q = Cannot m p"
| "run beh m p (Call h # ss) q =
     (case beh h q of
        Next q' \<Rightarrow> run beh m p ss q'
      | Respond s b \<Rightarrow> Answer s b
      | Fail e \<Rightarrow> Failed (error_status e))"
| "run beh m p (Options ms # ss) q = Allow ms"

definition serve ::
  "(handler \<Rightarrow> 'q \<Rightarrow> 'q outcome) \<Rightarrow> layer list \<Rightarrow> http_method \<Rightarrow> string \<Rightarrow> 'q \<Rightarrow> response"
where
  "serve beh a m p q = run beh m p (stack a m p) q"

subsection \<open>Documented statuses\<close>








definition guarded :: "route \<Rightarrow> bool" where
  "guarded r = List.member (rhandlers r) Authenticate"

subsection \<open>A sample run\<close>

text \<open>
  To run the server on concrete requests: a request with its bearer credential,
  if any, and a behaviour in which every handler of the user router does what
  the comment of its route documents. Authenticate refuses a request without
  credential with the 401 of the update route, the login controller meets a
  wrong password and answers the documented 402, the other controllers answer
  their documented success, and the remaining handlers pass the request on.
  The router with no routes stands in for the two absent ones.
\<close>

record request =
  authorization :: "string option"
  content :: string

definition anonymous :: request where
  "anonymous = \<lparr>authorization = None, content = []\<rparr>"

fun documented_beh :: "handler \<Rightarrow> request \<Rightarrow> request outcome" where
  "documented_beh Authenticate q =
     (if authorization q = None then Respond 401 ''Unauthorized access.'' else Next q)"
| "documented_beh Signup q = Respond 201 ''User created successfully.''"
| "documented_beh Login q = Respond 402 ''invalid password.''"
| "documented_beh UpdateProfile q = Respond 200 ''User profile updated successfully.''"
| "documented_beh GetUserList q = Respond 200 ''A list of user objects''"
| "documented_beh h q = Next q"

definition no_routes :: "string \<Rightarrow> route list" where
  "no_routes p = []"

section \<open>Facts about dispatch\<close>

lemmas route_defs = userRoutes_def signupRoute_def loginRoute_def updateRoute_def listRoute_def

lemmas dispatch_defs = stack_def app_def strip_mount_def user_router_def path_matches_def
  handles_def lower_def lower_char_def untrail_def


text \<open>A handler that is not called has no say in the answer.\<close>

lemma run_ignores_absent:
  "Call h \<notin> set steps \<Longrightarrow> run (beh(h := b)) m p steps q = run beh m p steps q"
proof (induction steps arbitrary: q)
  case Nil
  show ?case by simp
next
  case (Cons x xs)
  show ?case
  proof (cases x)
    case (Call g)
    with Cons.prems have "g \<noteq> h" and "Call h \<notin> set xs" by auto
    with Call Cons.IH show ?thesis by (simp split: outcome.split)
  next
    case (Options ms)
    then show ?thesis by simp
  qed
qed





subsection \<open>The four routes, dispatched\<close>

lemma stack_users_signup:
  "stack (app ss ms) POST ''/users/signup'' = [Call UrlEncoded, Call Json, Call Signup]"
  by (simp add: dispatch_defs route_defs)

lemma stack_users_login:
  "stack (app ss ms) POST ''/users/login'' = [Call UrlEncoded, Call Json, Call Login]"
  by (simp add: dispatch_defs route_defs)

lemma stack_users_update:
  "stack (app ss ms) POST ''/users/update'' =
     [Call UrlEncoded, Call Json, Call Authenticate, Call UpdateProfile]"
  by (simp add: dispatch_defs route_defs)

lemma stack_users_list:
  "stack (app ss ms) GET ''/users/list'' = [Call UrlEncoded, Call Json, Call GetUserList]"
  by (simp add: dispatch_defs route_defs)



text \<open>Letter case, a trailing slash and HEAD make no difference to the list route.\<close>

lemma stack_users_list_variant:
  "stack (app ss ms) HEAD ''/Users/LIST/'' = [Call UrlEncoded, Call Json, Call GetUserList]"
  by (simp add: dispatch_defs route_defs)

text \<open>Express answers OPTIONS on the update route itself, past the body parsers.\<close>

lemma stack_users_update_options:
  "stack (app ss ms) OPTIONS ''/users/update'' = [Call UrlEncoded, Call Json, Options [POST]]"
  by (simp add: dispatch_defs route_defs allow_of_def)

lemma documented_paths:
  "map doc_path userRoutes = map (\<lambda>r. ''/users'' @ rpath r) userRoutes"
  by (simp add: route_defs)

lemma documented_security:
  "map doc_security userRoutes = map guarded userRoutes"
  by (simp add: route_defs guarded_def)

subsection \<open>The sample behaviour keeps to the comments\<close>




section \<open>Error statuses\<close>




section \<open>Which routes the authenticate middleware guards\<close>

text \<open>
  C10: in the user router the authenticate middleware is registered on
  POST /update and on no other route. Take any request, with or without
  credential, that the two body parsers pass on. Sent as GET /users/list it
  gets the answer of the list controller, as POST /users/signup that of the
  signup controller, as POST /users/login that of the login controller:
  authenticate is not called, so the list is served to a client that never
  authenticated. Sent as POST /users/update it goes to authenticate first, and
  when authenticate answers or fails, that is the response: the update
  controller is called only with what authenticate passes on.
\<close>

theorem authenticate_guards_only_update:
  assumes "beh UrlEncoded q = Next q1" and "beh Json q1 = Next q2"
  shows "map (\<lambda>r. (rmethod r, rpath r, guarded r)) userRoutes =
       [(POST, ''/signup'', False), (POST, ''/login'', False),
        (POST, ''/update'', True), (GET, ''/list'', False)]
    \<and> stack (app ss ms) POST ''/users/update'' =
        [Call UrlEncoded, Call Json, Call Authenticate, Call UpdateProfile]
    \<and> stack (app ss ms) POST ''/users/signup'' = [Call UrlEncoded, Call Json, Call Signup]
    \<and> stack (app ss ms) POST ''/users/login'' = [Call UrlEncoded, Call Json, Call Login]
    \<and> stack (app ss ms) GET ''/users/list'' = [Call UrlEncoded, Call Json, Call GetUserList]
    \<and> serve beh (app ss ms) GET ''/users/list'' q =
        finish GET ''/users/list'' (beh GetUserList q2)
    \<and> serve beh (app ss ms) POST ''/users/signup'' q =
        finish POST ''/users/signup'' (beh Signup q2)
    \<and> serve beh (app ss ms) POST ''/users/login'' q =
        finish POST ''/users/login'' (beh Login q2)
    \<and> serve beh (app ss ms) POST ''/users/update'' q =
        (case beh Authenticate q2 of
           Next q3 \<Rightarrow> finish POST ''/users/update'' (beh UpdateProfile q3)
         | Respond s b \<Rightarrow> Answer s b
         | Fail e \<Rightarrow> Failed (error_status e))
    \<and> serve (beh(Authenticate := b)) (app ss ms) GET ''/users/list'' q =
        serve beh (app ss ms) GET ''/users/list'' q"
proof -
  have table:
    "map (\<lambda>r. (rmethod r, rpath r, guarded r)) userRoutes =
       [(POST, ''/signup'', False), (POST, ''/login'', False),
        (POST, ''/update'', True), (GET, ''/list'', False)]"
    by (simp add: route_defs guarded_def)
  have list: "serve beh (app ss ms) GET ''/users/list'' q =
        finish GET ''/users/list'' (beh GetUserList q2)"
    unfolding serve_def stack_users_list using assms
    by (simp split: outcome.split)
  have signup: "serve beh (app ss ms) POST ''/users/signup'' q =
        finish POST ''/users/signup'' (beh Signup q2)"
    unfolding serve_def stack_users_signup using assms
    by (simp split: outcome.split)
  have login: "serve beh (app ss ms) POST ''/users/login'' q =
        finish POST ''/users/login'' (beh Login q2)"
    unfolding serve_def stack_users_login using assms
    by (simp split: outcome.split)
  have update: "serve beh (app ss ms) POST ''/users/update'' q =
        (case beh Authenticate q2 of
           Next q3 \<Rightarrow> finish POST ''/users/update'' (beh UpdateProfile q3)
         | Respond s b \<Rightarrow> Answer s b
         | Fail e \<Rightarrow> Failed (error_status e))"
    unfolding serve_def stack_users_update using assms
    by (simp split: outcome.split)
  have free: "serve (beh(Authenticate := b)) (app ss ms) GET ''/users/list'' q =
        serve beh (app ss ms) GET ''/users/list'' q"
    unfolding serve_def stack_users_list by (rule run_ignores_absent) simp
  from table stack_users_update stack_users_signup stack_users_login stack_users_list
    list signup login update free
  show ?thesis by blast
qed

text \<open>
  The theorem at work: a client without credential gets the user list, and is
  refused the update by authenticate.
\<close>

theorem authenticate_guards_only_update_witness:
  "documented_beh UrlEncoded anonymous = Next anonymous
   \<and> documented_beh Json anonymous = Next anonymous
   \<and> authorization anonymous = None
   \<and> serve documented_beh (app no_routes no_routes) GET ''/users/list'' anonymous =
       Answer 200 ''A list of user objects''
   \<and> serve documented_beh (app no_routes no_routes) POST ''/users/update'' anonymous =
       Answer 401 ''Unauthorized access.''"
proof -
  have p1: "documented_beh UrlEncoded anonymous = Next anonymous" by simp
  have p2: "documented_beh Json anonymous = Next anonymous" by simp
  have anon: "authorization anonymous = None" by (simp add: anonymous_def)
  from authenticate_guards_only_update
    [where beh = documented_beh and q = anonymous and ?q1.0 = anonymous
      and ?q2.0 = anonymous and ss = no_routes and ms = no_routes, OF p1 p2]
  have "serve documented_beh (app no_routes no_routes) GET ''/users/list'' anonymous =
          finish GET ''/users/list'' (documented_beh GetUserList anonymous)"
    and "serve documented_beh (app no_routes no_routes) POST ''/users/update'' anonymous =
          (case documented_beh Authenticate anonymous of
             Next q3 \<Rightarrow> finish POST ''/users/update'' (documented_beh UpdateProfile q3)
           | Respond s b \<Rightarrow> Answer s b
           | Fail e \<Rightarrow> Failed (error_status e))"
    by blast+
  with p1 p2 anon show ?thesis by simp
qed

end
